theory Spec2Isabelle
  imports Complex_Main
begin

section \<open>Python values and their text\<close>

text \<open>
  Steps, parameters and overlays are JSON-like Python dictionaries. \<open>pyval\<close> is the
  universe of values they hold: \<open>None\<close>, booleans, unbounded integers, strings, lists and
  dictionaries with string keys (in insertion order). Floating-point values are not part
  of the universe.
\<close>

datatype pyval =
    PNone
  | PBool bool
  | PInt int
  | PStr string
  | PList "pyval list"
  | PDict "(string \<times> pyval) list"

definition nl :: string where
  "nl = [CHR 0x0A]"

definition sq :: string where
  "sq = [CHR 0x27]"

definition dq :: string where
  "dq = [CHR 0x22]"

definition quoted :: "string \<Rightarrow> string" where
  "quoted s = sq @ s @ sq"

definition dquoted :: "string \<Rightarrow> string" where
  "dquoted s = dq @ s @ dq"

text \<open>\<open>"\n".join(lines)\<close> and \<open>", ".join(items)\<close>.\<close>

fun join_with :: "string \<Rightarrow> string list \<Rightarrow> string" where
  "join_with sep [] = []"
| "join_with sep [l] = l"
| "join_with sep (l # m # ls) = l @ sep @ join_with sep (m # ls)"

definition join_lines :: "string list \<Rightarrow> string" where
  "join_lines ls = join_with nl ls"

text \<open>\<open>str(n)\<close> for an integer: decimal digits, with a minus sign when negative.\<close>

definition digit_char :: "nat \<Rightarrow> char" where
  "digit_char d = ''0123456789'' ! d"

function str_nat :: "nat \<Rightarrow> string" where
  "str_nat n = (if n < 10 then [digit_char n] else str_nat (n div 10) @ [digit_char (n mod 10)])"
  by pat_completeness auto
termination
  by (relation "measure (\<lambda>n. n)") auto

declare str_nat.simps [simp del]

definition str_int :: "int \<Rightarrow> string" where
  "str_int i = (if i < 0 then CHR ''-'' # str_nat (nat (- i)) else str_nat (nat i))"

text \<open>
  \<open>repr(s)\<close> for a string. The quote is the single quote unless the string holds a single
  quote and no double quote. The quote and the backslash are escaped with a backslash, tab,
  line feed and carriage return are written \<open>\t\<close>, \<open>\n\<close>, \<open>\r\<close>, the other control characters
  as \<open>\xhh\<close>. Characters from \<open>0x80\<close> on are the bytes of printable non-ASCII text and are
  copied.
\<close>

definition hex_digit :: "nat \<Rightarrow> char" where
  "hex_digit d = ''0123456789abcdef'' ! d"

definition repr_char :: "char \<Rightarrow> char \<Rightarrow> string" where
  "repr_char q c =
     (if c = q \<or> c = CHR 0x5C then [CHR 0x5C, c]
      else if c = CHR 0x09 then [CHR 0x5C, CHR ''t'']
      else if c = CHR 0x0A then [CHR 0x5C, CHR ''n'']
      else if c = CHR 0x0D then [CHR 0x5C, CHR ''r'']
      else if (of_char c :: nat) < 32 \<or> (of_char c :: nat) = 127
        then [CHR 0x5C, CHR ''x'', hex_digit (of_char c div 16), hex_digit (of_char c mod 16)]
      else [c])"

definition repr_str :: "string \<Rightarrow> string" where
  "repr_str s =
     (let q = (if CHR 0x27 \<in> set s \<and> CHR 0x22 \<notin> set s then CHR 0x22 else CHR 0x27)
      in q # concat (map (repr_char q) s) @ [q])"

fun py_repr :: "pyval \<Rightarrow> string" where
  "py_repr PNone = ''None''"
| "py_repr (PBool b) = (if b then ''True'' else ''False'')"
| "py_repr (PInt i) = str_int i"
| "py_repr (PStr s) = repr_str s"
| "py_repr (PList vs) = ''['' @ join_with '', '' (map py_repr vs) @ '']''"
| "py_repr (PDict kvs) =
     ''{'' @ join_with '', '' (map (\<lambda>kv. repr_str (fst kv) @ '': '' @ py_repr (snd kv)) kvs) @ ''}''"

text \<open>\<open>str(v)\<close>, which is also what an f-string field \<open>{v}\<close> inserts.\<close>

fun py_str :: "pyval \<Rightarrow> string" where
  "py_str (PStr s) = s"
| "py_str v = py_repr v"

text \<open>Truth value of a Python object, as \<open>if columns:\<close> tests it.\<close>

fun py_truthy :: "pyval \<Rightarrow> bool" where
  "py_truthy PNone = False"
| "py_truthy (PBool b) = b"
| "py_truthy (PInt i) = (i \<noteq> 0)"
| "py_truthy (PStr s) = (s \<noteq> [])"
| "py_truthy (PList vs) = (vs \<noteq> [])"
| "py_truthy (PDict kvs) = (kvs \<noteq> [])"

text \<open>Substring test, \<open>sub in s\<close>.\<close>

fun str_startswith :: "string \<Rightarrow> string \<Rightarrow> bool" where
  "str_startswith [] s = True"
| "str_startswith (p # ps) [] = False"
| "str_startswith (p # ps) (c # cs) = (p = c \<and> str_startswith ps cs)"

fun str_contains :: "string \<Rightarrow> string \<Rightarrow> bool" where
  "str_contains sub [] = (sub = [])"
| "str_contains sub (c # cs) = (str_startswith sub (c # cs) \<or> str_contains sub cs)"

section \<open>Errors\<close>

text \<open>
  The exceptions the modelled code can raise. \<open>NameError x\<close> is "name x is not defined",
  \<open>AttributeError\<close> a method looked up on an object that lacks it, \<open>KeyError k\<close> a
  subscript with a missing key, \<open>TypeError\<close> an unhashable dictionary key or an operation
  on \<open>None\<close>, \<open>ZeroDivisionError\<close> and \<open>OverflowError\<close> the two failures of a division, and
  \<open>EnvFault msg\<close> any exception raised by the file system or a library call.
\<close>

datatype py_error =
    NameError string
  | AttributeError
  | KeyError string
  | TypeError
  | ZeroDivisionError
  | OverflowError
  | EnvFault string

section \<open>Step Compiler: \<open>ExecutorAgent._generate_step_code\<close>\<close>

text \<open>A step is a dictionary; only \<open>get\<close> and subscripting are used on it.\<close>

type_synonym step_dict = "string \<rightharpoonup> pyval"

text \<open>\<open>step.get(key)\<close>: the value, or \<open>None\<close> when the key is missing.\<close>

definition dict_get :: "step_dict \<Rightarrow> string \<Rightarrow> pyval" where
  "dict_get d k = (case d k of None \<Rightarrow> PNone | Some v \<Rightarrow> v)"

text \<open>
  \<open>parameters.get(key, default)\<close>: only a dictionary has the method \<open>get\<close>.
\<close>

fun parameters_get :: "pyval \<Rightarrow> string \<Rightarrow> pyval \<Rightarrow> py_error + pyval" where
  "parameters_get (PDict kvs) k dflt = Inr (case map_of kvs k of None \<Rightarrow> dflt | Some v \<Rightarrow> v)"
| "parameters_get v k dflt = Inl AttributeError"

definition stats_template :: "string \<Rightarrow> string" where
  "stats_template columns = join_lines
     [''# Compute descriptive statistics'',
      ''stats_df = df['' @ columns @ ''].describe()'',
      ''print(stats_df)'']"

definition stats_all_template :: string where
  "stats_all_template = join_lines
     [''# Compute descriptive statistics'',
      ''stats_df = df.describe()'',
      ''print(stats_df)'']"

definition histogram_template :: "string \<Rightarrow> string" where
  "histogram_template column = join_lines
     [''# Create histogram'',
      ''plt.figure(figsize=(10, 6))'',
      ''plt.hist(df['' @ quoted column @ ''], bins=30, edgecolor='' @ quoted ''black'' @ '')'',
      ''plt.title(f'' @ quoted (''Distribution of '' @ column) @ '')'',
      ''plt.xlabel(column)'',
      ''plt.ylabel('' @ quoted ''Frequency'' @ '')'',
      ''plt.grid(True, alpha=0.3)'',
      ''plt.savefig(f'' @ quoted (''plots/'' @ column @ ''_histogram.png'')
         @ '', dpi=300, bbox_inches='' @ quoted ''tight'' @ '')'',
      ''plt.show()'']"

definition scatter_template :: "string \<Rightarrow> string \<Rightarrow> string" where
  "scatter_template x_col y_col = join_lines
     [''# Create scatter plot'',
      ''plt.figure(figsize=(10, 6))'',
      ''plt.scatter(df['' @ quoted x_col @ ''], df['' @ quoted y_col @ ''], alpha=0.6)'',
      ''plt.title(f'' @ quoted (y_col @ '' vs '' @ x_col) @ '')'',
      ''plt.xlabel(x_col)'',
      ''plt.ylabel(y_col)'',
      ''plt.grid(True, alpha=0.3)'',
      ''plt.savefig(f'' @ quoted (''plots/'' @ x_col @ ''_'' @ y_col @ ''_scatter.png'')
         @ '', dpi=300, bbox_inches='' @ quoted ''tight'' @ '')'',
      ''plt.show()'']"

definition correlations_template :: "string \<Rightarrow> string" where
  "correlations_template columns = join_lines
     [''# Compute correlation matrix'',
      ''corr = df['' @ columns @ ''].corr()'',
      ''print(corr)'',
      '''',
      ''# Visualize correlation'',
      ''plt.figure(figsize=(10, 8))'',
      ''sns.heatmap(corr, annot=True, cmap='' @ quoted ''coolwarm'' @ '', center=0, square=True)'',
      ''plt.title('' @ quoted ''Correlation Matrix'' @ '')'',
      ''plt.tight_layout()'',
      ''plt.savefig('' @ quoted ''plots/correlation_matrix.png''
         @ '', dpi=300, bbox_inches='' @ quoted ''tight'' @ '')'',
      ''plt.show()'']"

definition report_template :: string where
  "report_template = join_lines
     [''# Report generation handled by backend'',
      ''print('' @ dquoted ''Report generation completed'' @ '')'']"

text \<open>The default fallback at the end of \<open>_generate_step_code\<close>.\<close>

definition fallback_template :: "step_dict \<Rightarrow> string" where
  "fallback_template step = join_lines
     [''# Execute: '' @ py_str (dict_get step ''name''),
      ''# Action: '' @ py_str (dict_get step ''action''),
      ''print(f'' @ dquoted (''Executing step '' @ py_str (dict_get step ''step_number'')) @ '')'']"

text \<open>
  The \<open>if\<close>/\<open>elif\<close> chain on the action, in the source's order.

  The \<open>load_data\<close> template is an f-string whose text holds the fields \<open>{len(df)}\<close> and
  \<open>{len(df.columns)}\<close>. They are fields of the template itself, so the compiler evaluates
  them, after the \<open>file_type\<close> and \<open>file_path\<close> fields, in a scope with no name \<open>df\<close>:
  the branch raises \<open>NameError\<close> (or, before that, \<open>AttributeError\<close> when \<open>parameters\<close> is
  no dictionary or \<open>file_type\<close> is no string and has no \<open>replace\<close>).

  In the \<open>create_plot\<close> branch the defaults \<open>df.columns[0] if 'df' in globals() else ''\<close>
  are the empty string, for the same reason. A \<open>create_plot\<close> step whose plot type is
  neither \<open>histogram\<close> nor \<open>scatter\<close>, and a \<open>compute_correlations\<close> step whose columns
  are false, leave the chain without returning and reach the fallback.
\<close>

definition generate_step_code :: "step_dict \<Rightarrow> py_error + string" where
  "generate_step_code step =
     (let action = dict_get step ''action'';
          parameters = (case step ''parameters'' of None \<Rightarrow> PDict [] | Some p \<Rightarrow> p)
      in
      if action = PStr ''load_data'' then
        (case parameters_get parameters ''file_type'' (PStr ''csv'') of
           Inl e \<Rightarrow> Inl e
         | Inr file_type \<Rightarrow>
            (case file_type of
               PStr t \<Rightarrow>
                 (case parameters_get parameters ''file_path'' (PStr '''') of
                    Inl e \<Rightarrow> Inl e
                  | Inr file_path \<Rightarrow> Inl (NameError ''df''))
             | _ \<Rightarrow> Inl AttributeError))
      else if action = PStr ''compute_stats'' then
        (case parameters_get parameters ''columns'' (PList []) of
           Inl e \<Rightarrow> Inl e
         | Inr columns \<Rightarrow>
             if py_truthy columns then Inr (stats_template (py_str columns))
             else Inr stats_all_template)
      else if action = PStr ''create_plot'' then
        (case parameters_get parameters ''plot_type'' (PStr ''histogram'') of
           Inl e \<Rightarrow> Inl e
         | Inr plot_type \<Rightarrow>
            (case parameters_get parameters ''column'' (PStr '''') of
               Inl e \<Rightarrow> Inl e
             | Inr column \<Rightarrow>
                 if plot_type = PStr ''histogram'' then Inr (histogram_template (py_str column))
                 else if plot_type = PStr ''scatter'' then
                   (case parameters_get parameters ''x'' (PStr '''') of
                      Inl e \<Rightarrow> Inl e
                    | Inr x_col \<Rightarrow>
                       (case parameters_get parameters ''y'' (PStr '''') of
                          Inl e \<Rightarrow> Inl e
                        | Inr y_col \<Rightarrow> Inr (scatter_template (py_str x_col) (py_str y_col))))
                 else Inr (fallback_template step)))
      else if action = PStr ''compute_correlations'' then
        (case parameters_get parameters ''columns'' (PList []) of
           Inl e \<Rightarrow> Inl e
         | Inr columns \<Rightarrow>
             if py_truthy columns then Inr (correlations_template (py_str columns))
             else Inr (fallback_template step))
      else if action = PStr ''generate_report'' then Inr report_template
      else Inr (fallback_template step))"

section \<open>Plan Compiler: \<open>ExecutorAgent._create_notebook\<close>\<close>

text \<open>A Document is the list of the notebook's cells, each markdown or code.\<close>

datatype cell = Markdown string | Code string

text \<open>
  The caller's modifications are a dictionary; the compiler reads its entry \<open>steps\<close>, a
  dictionary from step numbers to partial steps. Python compares dictionary keys with
  \<open>==\<close>, under which \<open>True\<close> is \<open>1\<close> and \<open>False\<close> is \<open>0\<close>, so an overlay is indexed by
  normalised keys. Lists and dictionaries are unhashable and cannot be looked up.
\<close>

type_synonym overlay = "pyval \<rightharpoonup> step_dict"

type_synonym modifications = "(string \<times> overlay) list"

fun norm_key :: "pyval \<Rightarrow> pyval" where
  "norm_key (PBool b) = PInt (if b then 1 else 0)"
| "norm_key v = v"

fun py_hashable :: "pyval \<Rightarrow> bool" where
  "py_hashable (PList vs) = False"
| "py_hashable (PDict kvs) = False"
| "py_hashable v = True"

text \<open>\<open>modifications.get("steps", {})\<close>.\<close>

definition overlay_of :: "modifications \<Rightarrow> overlay" where
  "overlay_of m = (case map_of m ''steps'' of None \<Rightarrow> Map.empty | Some ov \<Rightarrow> ov)"

text \<open>
  The first statement of the loop body:
  \<^verbatim>\<open>if modifications and step.get("step_number") in modifications.get("steps", {}):
    step = {**step, **modifications["steps"][step["step_number"]]}\<close>
  \<open>None\<close> and the empty dictionary are false. The membership test hashes the step number.
  The subscript \<open>step["step_number"]\<close> raises when the step has no number (the test
  then found the key \<open>None\<close>). The merge keeps the step's fields and lets the entry's
  fields win.
\<close>

definition apply_modifications :: "modifications option \<Rightarrow> step_dict \<Rightarrow> py_error + step_dict" where
  "apply_modifications mods step =
     (case mods of
        None \<Rightarrow> Inr step
      | Some m \<Rightarrow>
          if m = [] then Inr step
          else if \<not> py_hashable (dict_get step ''step_number'') then Inl TypeError
          else if overlay_of m (norm_key (dict_get step ''step_number'')) = None then Inr step
          else (case step ''step_number'' of
                  None \<Rightarrow> Inl (KeyError ''step_number'')
                | Some k \<Rightarrow>
                   (case overlay_of m (norm_key k) of
                      None \<Rightarrow> Inl (KeyError (py_repr k))
                    | Some entry \<Rightarrow> Inr (step ++ entry))))"

definition step_header :: "step_dict \<Rightarrow> string" where
  "step_header step =
     ''## Step '' @ py_str (dict_get step ''step_number'') @ '': '' @ py_str (dict_get step ''name'')"

definition title_cell :: cell where
  "title_cell = Markdown (join_lines
     [''# AutoLabMate Analysis Report'',
      ''Generated automatically from experimental data''])"

definition imports_cell :: cell where
  "imports_cell = Code (join_lines
     [''# Standard data science imports'',
      ''import pandas as pd'',
      ''import numpy as np'',
      ''import matplotlib.pyplot as plt'',
      ''import seaborn as sns'',
      ''from scipy import stats'',
      ''import warnings'',
      ''warnings.filterwarnings('' @ quoted ''ignore'' @ '')'',
      '''',
      ''# Configure plotting'',
      ''plt.style.use('' @ quoted ''seaborn-v0_8'' @ '')'',
      ''sns.set_palette('' @ dquoted ''husl'' @ '')''])"

definition summary_header_cell :: cell where
  "summary_header_cell = Markdown ''## Report Summary''"

text \<open>
  The last cell is a plain string of the compiler, so its f-string is evaluated by the
  generated program, not by the compiler.
\<close>

definition summary_cell :: cell where
  "summary_cell = Code (join_lines
     [''# Generate summary'',
      ''print('' @ dquoted ''Analysis completed successfully!'' @ '')'',
      ''print(f'' @ dquoted ''Total execution time: {execution_time:.2f} seconds'' @ '')''])"

text \<open>
  The loop over the steps. An exception in the body leaves the function, and the cells
  appended so far are lost with the notebook.
\<close>

fun step_cells :: "modifications option \<Rightarrow> step_dict list \<Rightarrow> py_error + cell list" where
  "step_cells mods [] = Inr []"
| "step_cells mods (step # steps) =
     (case apply_modifications mods step of
        Inl e \<Rightarrow> Inl e
      | Inr step' \<Rightarrow>
         (case generate_step_code step' of
            Inl e \<Rightarrow> Inl e
          | Inr code_cell \<Rightarrow>
             (case step_cells mods steps of
                Inl e \<Rightarrow> Inl e
              | Inr cells \<Rightarrow> Inr (Markdown (step_header step') # Code code_cell # cells))))"

definition create_notebook :: "step_dict list \<Rightarrow> modifications option \<Rightarrow> py_error + cell list" where
  "create_notebook steps mods =
     (case step_cells mods steps of
        Inl e \<Rightarrow> Inl e
      | Inr cells \<Rightarrow> Inr ([title_cell, imports_cell] @ cells @ [summary_header_cell, summary_cell]))"

section \<open>Sandbox Runner: \<open>ExecutorAgent._execute_notebook\<close>\<close>

text \<open>
  What the body of the \<open>try\<close> block meets: the child process ends with its two streams
  and a return code, or \<open>subprocess.run\<close> raises \<open>TimeoutExpired\<close> after 300 seconds, or
  any step of the block (creating the plots directory, exporting and writing the script,
  launching the interpreter) raises another exception with the given message.
\<close>

datatype run_outcome =
    Exited string string int
  | TimeoutExpired
  | RunFault string

text \<open>The returned dictionary. Times are floats in the source and reals here.\<close>

record run_result =
  outputs :: "string \<rightharpoonup> pyval"
  execution_time :: real
  success :: bool

definition execute_notebook :: "run_outcome \<Rightarrow> real \<Rightarrow> run_result" where
  "execute_notebook outcome seconds =
     (case outcome of
        Exited out err returncode \<Rightarrow>
          \<lparr>outputs = [''stdout'' \<mapsto> PStr out, ''stderr'' \<mapsto> PStr err, ''returncode'' \<mapsto> PInt returncode],
           execution_time = seconds,
           success = (returncode = 0)\<rparr>
      | TimeoutExpired \<Rightarrow>
          \<lparr>outputs = [''error'' \<mapsto> PStr ''Execution timeout''],
           execution_time = seconds,
           success = False\<rparr>
      | RunFault msg \<Rightarrow>
          \<lparr>outputs = [''error'' \<mapsto> PStr msg],
           execution_time = seconds,
           success = False\<rparr>)"

section \<open>Report Synthesizer and Orchestrator: \<open>_generate_report\<close>, \<open>execute_plan\<close>\<close>

text \<open>
  The environment of one execution: the exceptions the file system raises (if any) when the
  workspace directory is made, the notebook is written and the markdown report is written;
  the outcome of the sandboxed run and its measured time; whether the PDF renders; and the
  paths as \<open>pathlib\<close> prints them.
\<close>

record exec_env =
  mkdir_fault :: "py_error option"
  notebook_file :: string
  write_fault :: "py_error option"
  run :: run_outcome
  elapsed :: real
  md_fault :: "py_error option"
  pdf_rendered :: bool
  report_md :: string
  report_pdf :: string

text \<open>
  \<open>_generate_report\<close>: a failure to render the PDF falls back to the markdown path; any
  other exception is logged and raised again. The result of the run only decides what is
  written into the file.
\<close>

definition generate_report :: "exec_env \<Rightarrow> run_result \<Rightarrow> py_error + string" where
  "generate_report env result =
     (case md_fault env of
        Some e \<Rightarrow> Inl e
      | None \<Rightarrow> Inr (if pdf_rendered env then report_pdf env else report_md env))"

text \<open>
  The dictionary \<open>execute_plan\<close> returns. The field \<open>error\<close> is \<open>str(e)\<close> in the source and
  the exception itself here.
\<close>

record plan_outcome =
  status :: string
  plan_id :: string
  error :: "py_error option"
  notebook_path :: "string option"
  report_path :: "string option"
  plan_outputs :: "(string \<rightharpoonup> pyval) option"
  plan_execution_time :: "real option"

definition plan_failed :: "py_error \<Rightarrow> string \<Rightarrow> plan_outcome" where
  "plan_failed e pid =
     \<lparr>status = ''failed'', plan_id = pid, error = Some e, notebook_path = None,
      report_path = None, plan_outputs = None, plan_execution_time = None\<rparr>"

definition execute_plan ::
  "exec_env \<Rightarrow> string \<Rightarrow> step_dict list \<Rightarrow> modifications option \<Rightarrow> plan_outcome" where
  "execute_plan env pid steps mods =
     (case mkdir_fault env of
        Some e \<Rightarrow> plan_failed e pid
      | None \<Rightarrow>
         (case create_notebook steps mods of
            Inl e \<Rightarrow> plan_failed e pid
          | Inr notebook \<Rightarrow>
             (case write_fault env of
                Some e \<Rightarrow> plan_failed e pid
              | None \<Rightarrow>
                 (let result = execute_notebook (run env) (elapsed env) in
                  case generate_report env result of
                    Inl e \<Rightarrow> plan_failed e pid
                  | Inr path \<Rightarrow>
                      \<lparr>status = ''success'', plan_id = pid, error = None,
                       notebook_path = Some (notebook_file env),
                       report_path = Some path,
                       plan_outputs = Some (outputs result),
                       plan_execution_time = Some (execution_time result)\<rparr>))))"

section \<open>Floating-point arithmetic of the status query\<close>

text \<open>
  Python's \<open>float\<close> is the IEEE 754 binary64 format. A finite float is kept as a mantissa
  and an exponent, \<open>Finite m e\<close> standing for \<open>m * 2 ^ e\<close>; the sign of a zero is not kept.
  \<open>int.bit_length()\<close> gives the position of the leading bit.
\<close>

function bit_length :: "nat \<Rightarrow> nat" where
  "bit_length n = (if n = 0 then 0 else Suc (bit_length (n div 2)))"
  by pat_completeness auto
termination
  by (relation "measure (\<lambda>n. n)") auto

declare bit_length.simps [simp del]

text \<open>The integer nearest to \<open>p / q\<close> for \<open>0 \<le> p\<close> and \<open>0 < q\<close>, a tie going to the even one.\<close>

definition round_half_even :: "int \<Rightarrow> int \<Rightarrow> int" where
  "round_half_even p q =
     (let f = p div q; r = p mod q
      in if 2 * r < q then f else if q < 2 * r then f + 1 else if even f then f else f + 1)"

text \<open>
  For positive \<open>a\<close> and \<open>n\<close>, the exponent \<open>k\<close> with \<open>2 ^ k \<le> a / n < 2 ^ (k + 1)\<close>: the
  difference \<open>d\<close> of the bit lengths, or \<open>d - 1\<close>.
\<close>

definition ratio_exponent :: "nat \<Rightarrow> nat \<Rightarrow> int" where
  "ratio_exponent a n =
     (let d = int (bit_length a) - int (bit_length n)
      in if int n * 2 ^ nat d \<le> int a * 2 ^ nat (- d) then d else d - 1)"

text \<open>
  The binary64 number nearest to \<open>a / n\<close>, as mantissa and exponent: 53 significant bits,
  and below \<open>2 ^ (- 1022)\<close> the fixed spacing \<open>2 ^ (- 1074)\<close> of the subnormal numbers.
\<close>

definition round_ratio :: "nat \<Rightarrow> nat \<Rightarrow> int \<times> int" where
  "round_ratio a n =
     (if a = 0 then (0, 0)
      else let e = max (ratio_exponent a n) (- 1022) - 52
           in (round_half_even (int a * 2 ^ nat (- e)) (int n * 2 ^ nat e), e))"

datatype pyfloat = Finite int int | Infinity bool

text \<open>
  \<open>c / n\<close> on integers: the correctly rounded quotient; \<open>OverflowError\<close> when it would be
  \<open>2 ^ 1024\<close> or more.
\<close>

definition int_true_div :: "int \<Rightarrow> int \<Rightarrow> py_error + pyfloat" where
  "int_true_div c n =
     (if n = 0 then Inl ZeroDivisionError
      else case round_ratio (nat \<bar>c\<bar>) (nat \<bar>n\<bar>) of (m, e) \<Rightarrow>
        if 2 ^ 1024 * 2 ^ nat (- e) \<le> m * 2 ^ nat e then Inl OverflowError
        else Inr (Finite (if (c < 0) \<noteq> (n < 0) then - m else m) e))"

text \<open>\<open>x * 100\<close> on a float: the rounded product, an infinity when it overflows.\<close>

fun float_times_100 :: "pyfloat \<Rightarrow> pyfloat" where
  "float_times_100 (Finite m e) =
     (case round_ratio (nat (\<bar>m\<bar> * 100) * 2 ^ nat e) (2 ^ nat (- e)) of (m', e') \<Rightarrow>
        if 2 ^ 1024 * 2 ^ nat (- e') \<le> m' * 2 ^ nat e' then Infinity (m < 0)
        else Finite (if m < 0 then - m' else m') e')"
| "float_times_100 (Infinity s) = Infinity s"

definition pow2 :: "int \<Rightarrow> real" where
  "pow2 e = (if 0 \<le> e then 2 ^ nat e else 1 / 2 ^ nat (- e))"

fun float_value :: "pyfloat \<Rightarrow> real option" where
  "float_value (Finite m e) = Some (real_of_int m * pow2 e)"
| "float_value (Infinity s) = None"

text \<open>A number of the status dictionary: the integer \<open>0\<close> or a float.\<close>

datatype pynum = PyInt int | PyFloat pyfloat

fun num_value :: "pynum \<Rightarrow> real option" where
  "num_value (PyInt i) = Some (real_of_int i)"
| "num_value (PyFloat x) = float_value x"

section \<open>Execution Tracker: \<open>MonitorAgent\<close>\<close>

record log_entry =
  timestamp :: nat
  level :: string
  message :: string
  log_step :: "int option"

text \<open>
  A stored execution. Every write sets all five keys at once, so a stored dictionary has
  them all; \<open>current_step\<close> and \<open>total_steps\<close> may hold \<open>None\<close>.
\<close>

record exec_record =
  exec_status :: string
  current_step :: "int option"
  total_steps :: "int option"
  estimated_remaining :: "string option"
  last_updated :: nat

record tracker =
  executions :: "string \<rightharpoonup> exec_record"
  logs :: "string \<rightharpoonup> log_entry list"

definition empty_tracker :: tracker where
  "empty_tracker = \<lparr>executions = Map.empty, logs = Map.empty\<rparr>"

text \<open>\<open>add_log\<close>; \<open>now\<close> is the clock reading.\<close>

definition add_log :: "nat \<Rightarrow> tracker \<Rightarrow> string \<Rightarrow> string \<Rightarrow> string \<Rightarrow> int option \<Rightarrow> tracker" where
  "add_log now t execution_id lvl msg stp =
     t\<lparr>logs := (logs t)(execution_id \<mapsto>
          (case logs t execution_id of None \<Rightarrow> [] | Some entries \<Rightarrow> entries)
          @ [\<lparr>timestamp = now, level = lvl, message = msg, log_step = stp\<rparr>])\<rparr>"

text \<open>\<open>a or b\<close> on optional integers: \<open>None\<close> and \<open>0\<close> are false.\<close>

definition py_or :: "int option \<Rightarrow> int option \<Rightarrow> int option" where
  "py_or a b = (case a of None \<Rightarrow> b | Some n \<Rightarrow> if n = 0 then b else Some n)"

definition update_execution_status ::
  "nat \<Rightarrow> tracker \<Rightarrow> string \<Rightarrow> string \<Rightarrow> int option \<Rightarrow> int option \<Rightarrow> string option \<Rightarrow> tracker" where
  "update_execution_status now t execution_id new_status cur tot eta =
     (let prior = executions t execution_id;
          prior_current = (case prior of None \<Rightarrow> None | Some r \<Rightarrow> current_step r);
          prior_total = (case prior of None \<Rightarrow> None | Some r \<Rightarrow> total_steps r);
          r' = \<lparr>exec_status = new_status,
                current_step = py_or cur prior_current,
                total_steps = py_or tot prior_total,
                estimated_remaining = eta,
                last_updated = now\<rparr>
      in add_log now (t\<lparr>executions := (executions t)(execution_id \<mapsto> r')\<rparr>)
           execution_id ''INFO'' (''Status updated: '' @ new_status) None)"

definition handle_step_completion :: "nat \<Rightarrow> tracker \<Rightarrow> string \<Rightarrow> int \<Rightarrow> bool \<Rightarrow> tracker" where
  "handle_step_completion now t execution_id step_number ok =
     (let t1 = (if ok
                then add_log now t execution_id ''INFO''
                       (''Step '' @ str_int step_number @ '' completed successfully'') (Some step_number)
                else add_log now t execution_id ''ERROR''
                       (''Step '' @ str_int step_number @ '' failed'') (Some step_number))
      in update_execution_status now t1 execution_id ''running'' (Some step_number) None None)"

text \<open>
  The status dictionary. Comparing or dividing \<open>None\<close> raises \<open>TypeError\<close> inside the
  \<open>try\<close> block, a quotient too large for a float raises \<open>OverflowError\<close>, and the handler
  returns the error dictionary instead. The progress is
  \<open>current_step / total_steps * 100\<close>, a float, or the integer \<open>0\<close>.
\<close>

record status_view =
  view_status :: string
  view_current_step :: "int option"
  view_total_steps :: "int option"
  view_logs :: "string list"
  view_estimated_remaining :: "string option"
  progress_percent :: pynum

datatype status_reply = Status status_view | StatusError py_error

definition last_messages :: "log_entry list \<Rightarrow> string list" where
  "last_messages entries = map message (drop (length entries - 50) entries)"

definition get_execution_status :: "tracker \<Rightarrow> string \<Rightarrow> status_reply" where
  "get_execution_status t execution_id =
     (let log_entries = (case logs t execution_id of None \<Rightarrow> [] | Some entries \<Rightarrow> entries)
      in case executions t execution_id of
           None \<Rightarrow>
             Status \<lparr>view_status = ''unknown'', view_current_step = Some 0, view_total_steps = Some 0,
                     view_logs = last_messages log_entries, view_estimated_remaining = None,
                     progress_percent = PyInt 0\<rparr>
         | Some r \<Rightarrow>
            (case total_steps r of
               None \<Rightarrow> StatusError TypeError
             | Some n \<Rightarrow>
                 if n > 0 then
                   (case current_step r of
                      None \<Rightarrow> StatusError TypeError
                    | Some c \<Rightarrow>
                       (case int_true_div c n of
                          Inl e \<Rightarrow> StatusError e
                        | Inr ratio \<Rightarrow>
                            Status \<lparr>view_status = exec_status r, view_current_step = Some c,
                                    view_total_steps = Some n, view_logs = last_messages log_entries,
                                    view_estimated_remaining = estimated_remaining r,
                                    progress_percent = PyFloat (float_times_100 ratio)\<rparr>))
                 else
                   Status \<lparr>view_status = exec_status r, view_current_step = current_step r,
                           view_total_steps = Some n, view_logs = last_messages log_entries,
                           view_estimated_remaining = estimated_remaining r,
                           progress_percent = PyInt 0\<rparr>))"

section \<open>The background task: \<open>_execute_plan_background\<close>\<close>

text \<open>
  The task awaits \<open>execute_plan\<close>, logs, and returns. The tracker is the module's global
  \<open>monitor_agent\<close>; the task's state is passed in and out to show what it does with it.
\<close>

definition execute_plan_background ::
  "exec_env \<Rightarrow> tracker \<Rightarrow> string \<Rightarrow> string \<Rightarrow> step_dict list \<Rightarrow> modifications option
     \<Rightarrow> tracker \<times> (py_error + unit)" where
  "execute_plan_background env t execution_id pid steps mods =
     (case execute_plan env pid steps mods of result \<Rightarrow> (t, Inr ()))"

section \<open>Notions used to state the properties\<close>

text \<open>The five action strings the Step Compiler has a branch for.\<close>

definition recognised_actions :: "pyval set" where
  "recognised_actions = {PStr ''load_data'', PStr ''compute_stats'', PStr ''create_plot'',
     PStr ''compute_correlations'', PStr ''generate_report''}"

definition cell_text :: "cell \<Rightarrow> string" where
  "cell_text c = (case c of Markdown s \<Rightarrow> s | Code s \<Rightarrow> s)"

text \<open>
  How Python reads a fragment, as far as the place of a parameter value is concerned: the
  source outside comments and string literals, the comments (from \<open>#\<close> to the end of the
  line) and the string literals in single or double quotes. In a literal a backslash takes
  the next character with it, and a line feed or carriage return before the closing quote
  leaves the literal unterminated (no result). The templates have no triple-quoted
  literals.
\<close>

datatype lex_mode = InCode | InComment | InString char | InEscape char

datatype piece = Src char | Lit string | Cmt string

fun py_lex :: "lex_mode \<Rightarrow> string \<Rightarrow> string \<Rightarrow> piece list option" where
  "py_lex InCode acc [] = Some []"
| "py_lex InComment acc [] = Some [Cmt acc]"
| "py_lex (InString q) acc [] = None"
| "py_lex (InEscape q) acc [] = None"
| "py_lex InCode acc (c # cs) =
     (if c = CHR ''#'' then py_lex InComment [] cs
      else if c = CHR 0x27 \<or> c = CHR 0x22 then py_lex (InString c) [] cs
      else map_option ((#) (Src c)) (py_lex InCode [] cs))"
| "py_lex InComment acc (c # cs) =
     (if c = CHR 0x0A \<or> c = CHR 0x0D
      then map_option (\<lambda>ps. Cmt acc # Src c # ps) (py_lex InCode [] cs)
      else py_lex InComment (acc @ [c]) cs)"
| "py_lex (InString q) acc (c # cs) =
     (if c = q then map_option ((#) (Lit acc)) (py_lex InCode [] cs)
      else if c = CHR 0x0A \<or> c = CHR 0x0D then None
      else if c = CHR 0x5C then py_lex (InEscape q) (acc @ [c]) cs
      else py_lex (InString q) (acc @ [c]) cs)"
| "py_lex (InEscape q) acc (c # cs) = py_lex (InString q) (acc @ [c]) cs"





text \<open>
  A text that can neither end a single-quoted literal nor, in an f-string, open a
  replacement field: no single quote, backslash, line feed, carriage return or brace.
\<close>

definition literal_safe :: "string \<Rightarrow> bool" where
  "literal_safe v =
     (\<forall>c \<in> set v. c \<notin> {CHR 0x27, CHR 0x5C, CHR 0x0A, CHR 0x0D, CHR ''{'', CHR ''}''})"

section \<open>Example inputs\<close>

definition plot_step_without_parameters :: step_dict where
  "plot_step_without_parameters =
     [''step_number'' \<mapsto> PInt 7, ''name'' \<mapsto> PStr ''Visualise'', ''action'' \<mapsto> PStr ''create_plot'']"

definition unknown_step :: step_dict where
  "unknown_step =
     [''step_number'' \<mapsto> PInt 3, ''name'' \<mapsto> PStr ''Brew'', ''action'' \<mapsto> PStr ''make_coffee'']"

definition stats_step :: "int \<Rightarrow> string \<Rightarrow> step_dict" where
  "stats_step n columns =
     [''step_number'' \<mapsto> PInt n, ''name'' \<mapsto> PStr ''Statistics'', ''action'' \<mapsto> PStr ''compute_stats'',
      ''parameters'' \<mapsto> PDict [(''columns'', PStr columns)]]"


definition report_step :: "int \<Rightarrow> step_dict" where
  "report_step n =
     [''step_number'' \<mapsto> PInt n, ''name'' \<mapsto> PStr ''Report'', ''action'' \<mapsto> PStr ''generate_report'']"

definition example_plan :: "step_dict list" where
  "example_plan = [stats_step 1 ''x'', report_step 2, unknown_step]"

definition example_modifications :: modifications where
  "example_modifications = [(''steps'', [PInt 2 \<mapsto> [''name'' \<mapsto> PStr ''Final report'']])]"

definition example_env :: "run_outcome \<Rightarrow> exec_env" where
  "example_env outcome =
     \<lparr>mkdir_fault = None, notebook_file = ''workspace/p1/analysis.ipynb'', write_fault = None,
      run = outcome, elapsed = 2, md_fault = None, pdf_rendered = False,
      report_md = ''workspace/p1/report.md'', report_pdf = ''workspace/p1/report.pdf''\<rparr>"

definition nonzero_exit :: run_outcome where
  "nonzero_exit = Exited ''Analysis completed successfully!'' ''NameError'' 1"



definition load_data_step :: step_dict where
  "load_data_step =
     [''step_number'' \<mapsto> PInt 1, ''name'' \<mapsto> PStr ''Load Data'', ''action'' \<mapsto> PStr ''load_data'',
      ''parameters'' \<mapsto> PDict [(''file_path'', PStr ''data.csv''), (''file_type'', PStr ''.csv'')]]"

definition planner_plan :: "step_dict list" where
  "planner_plan = [load_data_step, report_step 2]"

definition load_data_modifications :: modifications where
  "load_data_modifications =
     [(''steps'', [PInt 2 \<mapsto> [''action'' \<mapsto> PStr ''load_data'',
          ''parameters'' \<mapsto> PDict [(''file_path'', PStr ''data.csv'')]]])]"

section \<open>Auxiliary facts\<close>

lemma str_startswith_append: "str_startswith x (x @ b)"
  by (induction x) auto

lemma str_contains_self: "str_contains x (x @ b)"
proof (cases "x @ b")
  case Nil
  then show ?thesis by simp
next
  case (Cons c cs)
  have "str_startswith x (x @ b)" by (rule str_startswith_append)
  then have "str_contains x (c # cs)" unfolding Cons by simp
  then show ?thesis by (simp only: Cons)
qed

lemma str_contains_append: "str_contains x (a @ x @ b)"
  by (induction a) (auto simp: str_contains_self)

lemma fallback_contains_name:
  "str_contains (py_str (dict_get s ''name'')) (fallback_template s)"
proof -
  have "fallback_template s = ''# Execute: '' @ py_str (dict_get s ''name'')
          @ (nl @ ''# Action: '' @ py_str (dict_get s ''action'') @ nl
             @ ''print(f'' @ dquoted (''Executing step '' @ py_str (dict_get s ''step_number'')) @ '')'')"
    by (simp add: fallback_template_def join_lines_def)
  then show ?thesis by (simp only: str_contains_append)
qed

lemma fallback_contains_number:
  "str_contains (py_str (dict_get s ''step_number'')) (fallback_template s)"
proof -
  have "fallback_template s = (''# Execute: '' @ py_str (dict_get s ''name'')
          @ nl @ ''# Action: '' @ py_str (dict_get s ''action'') @ nl
             @ ''print(f'' @ dq @ ''Executing step '') @ py_str (dict_get s ''step_number'') @ (dq @ '')'')"
    by (simp add: fallback_template_def join_lines_def dquoted_def)
  then show ?thesis by (simp only: str_contains_append)
qed

text \<open>
  The \<open>load_data\<close> branch never returns a fragment: the template's own fields
  \<open>{len(df)}\<close> stop the compiler, whatever the parameters are, and with it the
  compilation of any plan that has such a step.
\<close>

lemma load_data_raises:
  "dict_get s ''action'' = PStr ''load_data'' \<Longrightarrow> \<exists>e. generate_step_code s = Inl e"
  by (cases "case s ''parameters'' of None \<Rightarrow> PDict [] | Some p \<Rightarrow> p")
     (auto simp: generate_step_code_def Let_def split: pyval.splits option.splits)

lemma load_data_step_stops_compilation:
  assumes "s \<in> set steps" and "dict_get s ''action'' = PStr ''load_data''"
  shows "\<exists>e. create_notebook steps None = Inl e"
proof -
  from assms(2) obtain e where e: "generate_step_code s = Inl e"
    using load_data_raises by blast
  have "\<exists>e. step_cells None steps = Inl e" using assms(1)
  proof (induction steps)
    case Nil
    then show ?case by simp
  next
    case (Cons a steps)
    then show ?case
      by (cases "a = s") (auto simp: e apply_modifications_def split: sum.splits)
  qed
  then show ?thesis by (auto simp: create_notebook_def)
qed




lemma py_lex_string_safe:
  "\<forall>c \<in> set v. c \<noteq> q \<and> c \<noteq> CHR 0x5C \<and> c \<noteq> CHR 0x0A \<and> c \<noteq> CHR 0x0D \<Longrightarrow>
   py_lex (InString q) acc (v @ rest) = py_lex (InString q) (acc @ v) rest"
  by (induction v arbitrary: acc) simp_all

lemma py_lex_literal_safe [simp]:
  "literal_safe v \<Longrightarrow>
   py_lex (InString (CHR 0x27)) acc (v @ rest) = py_lex (InString (CHR 0x27)) (acc @ v) rest"
  by (rule py_lex_string_safe) (auto simp: literal_safe_def)



lemma apply_modifications_None: "apply_modifications None s = Inr s"
  by (simp add: apply_modifications_def)

lemma apply_modifications_no_entry:
  "apply_modifications (Some m) s = Inr s' \<Longrightarrow>
   overlay_of m (norm_key (dict_get s ''step_number'')) = None \<Longrightarrow> s' = s"
  by (auto simp: apply_modifications_def split: if_splits)

lemma apply_modifications_entry:
  "apply_modifications (Some m) s = Inr s' \<Longrightarrow> m \<noteq> [] \<Longrightarrow> s ''step_number'' = Some k \<Longrightarrow>
   overlay_of m (norm_key k) = Some entry \<Longrightarrow> s' = s ++ entry"
  by (auto simp: apply_modifications_def dict_get_def split: if_splits)

lemma step_cells_length:
  "step_cells mods steps = Inr cells \<Longrightarrow> length cells = 2 * length steps"
  by (induction steps arbitrary: cells) (auto split: sum.splits)

lemma step_cells_nth:
  "step_cells mods steps = Inr cells \<Longrightarrow> i < length steps \<Longrightarrow>
     \<exists>s' c. apply_modifications mods (steps ! i) = Inr s' \<and> generate_step_code s' = Inr c
       \<and> cells ! (2 * i) = Markdown (step_header s') \<and> cells ! (2 * i + 1) = Code c"
proof (induction steps arbitrary: cells i)
  case Nil
  then show ?case by simp
next
  case (Cons s steps)
  from Cons.prems(1) obtain s' c rest where
    a: "apply_modifications mods s = Inr s'" and g: "generate_step_code s' = Inr c"
    and r: "step_cells mods steps = Inr rest"
    and cells: "cells = Markdown (step_header s') # Code c # rest"
    by (auto split: sum.splits)
  show ?case
  proof (cases i)
    case 0
    with a g cells show ?thesis by simp
  next
    case (Suc j)
    with Cons.prems(2) have "j < length steps" by simp
    from Cons.IH [OF r this] Suc cells show ?thesis by simp
  qed
qed

lemma step_cells_total:
  "\<forall>s \<in> set steps. \<exists>s' c. apply_modifications mods s = Inr s' \<and> generate_step_code s' = Inr c
     \<Longrightarrow> \<exists>cells. step_cells mods steps = Inr cells"
  by (induction steps) (auto split: sum.splits)

lemma create_notebook_Inr:
  "create_notebook steps mods = Inr d \<longleftrightarrow>
     (\<exists>cells. step_cells mods steps = Inr cells
        \<and> d = [title_cell, imports_cell] @ cells @ [summary_header_cell, summary_cell])"
  by (auto simp: create_notebook_def split: sum.splits)

lemma document_nth:
  assumes "length cells = 2 * n" and "i < n"
  shows "([a, b] @ cells @ [y, z]) ! (2 * i + 2) = cells ! (2 * i)"
    and "([a, b] @ cells @ [y, z]) ! (2 * i + 3) = cells ! (2 * i + 1)"
proof -
  have i1: "2 * i < length cells" and i2: "2 * i + 1 < length cells" using assms by auto
  show "([a, b] @ cells @ [y, z]) ! (2 * i + 2) = cells ! (2 * i)"
    using i1 by (simp add: nth_append)
  show "([a, b] @ cells @ [y, z]) ! (2 * i + 3) = cells ! (2 * i + 1)"
    using i2 by (simp add: nth_append numeral_3_eq_3)
qed

lemma bit_length_upper: "n < 2 ^ bit_length n"
proof (induction n rule: bit_length.induct)
  case (1 n)
  show ?case
  proof (cases "n = 0")
    case True
    then show ?thesis by (simp add: bit_length.simps)
  next
    case False
    with 1 have "n div 2 < 2 ^ bit_length (n div 2)" by simp
    then have "n < 2 * 2 ^ bit_length (n div 2)" by linarith
    with False show ?thesis by (subst bit_length.simps) simp
  qed
qed

lemma bit_length_lower: "0 < n \<Longrightarrow> 2 ^ bit_length n \<le> 2 * n"
proof (induction n rule: bit_length.induct)
  case (1 n)
  then have n: "n \<noteq> 0" by simp
  show ?case
  proof (cases "n div 2 = 0")
    case True
    with n have "n = 1" by linarith
    then show ?thesis by (simp add: bit_length.simps)
  next
    case False
    with 1 n have "2 ^ bit_length (n div 2) \<le> 2 * (n div 2)" by simp
    then have "2 * 2 ^ bit_length (n div 2) \<le> 2 * n" by linarith
    with n show ?thesis by (subst bit_length.simps) simp
  qed
qed

lemma bit_length_le: "n < 2 ^ j \<Longrightarrow> bit_length n \<le> j"
proof (rule ccontr)
  assume n: "n < 2 ^ j" and "\<not> bit_length n \<le> j"
  then have j: "Suc j \<le> bit_length n" by simp
  then have pos: "0 < n" by (cases "n = 0") (simp_all add: bit_length.simps)
  have "(2::nat) ^ Suc j \<le> 2 ^ bit_length n" using j by (rule power_increasing) simp
  also have "\<dots> \<le> 2 * n" using pos by (rule bit_length_lower)
  finally show False using n by simp
qed

lemma bit_length_power: "bit_length (2 ^ s) = Suc s"
proof (rule antisym)
  show "bit_length (2 ^ s) \<le> Suc s" by (rule bit_length_le) simp
  have "(2::nat) ^ s < 2 ^ bit_length (2 ^ s)" by (rule bit_length_upper)
  then have "s < bit_length (2 ^ s)" by (simp add: power_strict_increasing_iff)
  then show "Suc s \<le> bit_length (2 ^ s)" by simp
qed

lemma ratio_exponent_le: "ratio_exponent a n \<le> int (bit_length a) - int (bit_length n)"
  by (simp add: ratio_exponent_def Let_def)

lemma round_half_even_nonneg: "0 \<le> p \<Longrightarrow> 0 < q \<Longrightarrow> 0 \<le> round_half_even p q"
  by (simp add: round_half_even_def Let_def pos_imp_zdiv_nonneg_iff)

lemma round_half_even_le:
  assumes "0 < q" and "p \<le> N * q"
  shows "round_half_even p q \<le> N"
proof -
  have f: "p div q \<le> N" using assms by (metis zdiv_mono1 nonzero_mult_div_cancel_right less_irrefl)
  show ?thesis
  proof (cases "p div q = N")
    case True
    have "p = q * (p div q) + p mod q" by simp
    with True assms have "p mod q \<le> 0" by (simp add: mult.commute)
    moreover have "0 \<le> p mod q" using assms by simp
    ultimately have "p mod q = 0" by simp
    with True assms show ?thesis by (simp add: round_half_even_def Let_def)
  next
    case False
    with f have "p div q + 1 \<le> N" by simp
    with f show ?thesis by (simp add: round_half_even_def Let_def)
  qed
qed

lemma round_half_even_error:
  assumes "0 < q"
  shows "\<bar>2 * (round_half_even p q * q - p)\<bar> \<le> q"
proof -
  define f where "f = p div q"
  define r where "r = p mod q"
  have p: "p = f * q + r" by (simp add: f_def r_def)
  have r: "0 \<le> r" "r < q" using assms by (simp_all add: r_def)
  have a: "f * q - p = - r" by (simp add: p)
  have b: "(f + 1) * q - p = q - r" by (simp add: p algebra_simps)
  have "round_half_even p q = f \<and> 2 * r \<le> q \<or> round_half_even p q = f + 1 \<and> q \<le> 2 * r"
    by (auto simp: round_half_even_def Let_def f_def r_def)
  then show ?thesis
  proof
    assume "round_half_even p q = f \<and> 2 * r \<le> q"
    then show ?thesis using a r by simp
  next
    assume "round_half_even p q = f + 1 \<and> q \<le> 2 * r"
    then show ?thesis using b r by simp
  qed
qed

lemma pow2_neg: "pow2 (- int j) = 1 / 2 ^ j"
  by (cases j) (simp_all add: pow2_def nat_add_distrib)

lemma scaled_error:
  fixes m p q t :: real
  assumes q: "0 < q" and t: "0 < t" and e: "\<bar>2 * (m * q - p * t)\<bar> \<le> q"
  shows "\<bar>m / t - p / q\<bar> \<le> 1 / (2 * t)"
proof -
  have "m / t - p / q = (m * q - p * t) / (t * q)"
    using q t by (simp add: field_simps)
  then have "\<bar>m / t - p / q\<bar> = \<bar>m * q - p * t\<bar> / (t * q)"
    using q t by (simp add: abs_mult)
  also have "\<dots> \<le> (q / 2) / (t * q)"
  proof (rule divide_right_mono)
    have "\<bar>2 * (m * q - p * t)\<bar> = 2 * \<bar>m * q - p * t\<bar>" by (simp only: abs_mult abs_numeral)
    with e show "\<bar>m * q - p * t\<bar> \<le> q / 2" by simp
    show "0 \<le> t * q" using q t by simp
  qed
  also have "\<dots> = 1 / (2 * t)" using q t by simp
  finally show ?thesis .
qed

lemma ratio_exponent_bound:
  assumes "a < 2 ^ i * 2 ^ s"
  shows "ratio_exponent a (2 ^ s) < int i"
proof -
  have "bit_length a \<le> i + s"
    using assms by (intro bit_length_le) (simp add: power_add)
  then have "int (bit_length a) - int (bit_length (2 ^ s :: nat)) < int i"
    by (simp add: bit_length_power)
  with ratio_exponent_le [of a "2 ^ s"] show ?thesis by linarith
qed

lemma ratio_exponent_nonpos:
  assumes "a \<le> n"
  shows "ratio_exponent a n \<le> 0"
proof -
  have "a < 2 ^ bit_length n" using assms bit_length_upper [of n] by simp
  then have "bit_length a \<le> bit_length n" by (rule bit_length_le)
  with ratio_exponent_le [of a n] show ?thesis by linarith
qed

lemma int_true_div_unit:
  assumes c: "0 \<le> c" and cn: "c \<le> n" and n: "0 < n"
  shows "\<exists>m j. int_true_div c n = Inr (Finite m (- int j)) \<and> 0 \<le> m \<and> m \<le> 2 ^ j
           \<and> \<bar>real_of_int m / 2 ^ j - real_of_int c / real_of_int n\<bar> \<le> 1 / 2 ^ 53"
proof (cases "c = 0")
  case True
  then have "int_true_div c n = Inr (Finite 0 (- int 0))"
    using n by (simp add: int_true_div_def round_ratio_def)
  with True show ?thesis by (intro exI [of _ 0]) auto
next
  case False
  with c have cpos: "0 < c" by simp
  define e where "e = max (ratio_exponent (nat c) (nat n)) (- 1022) - 52"
  define j where "j = nat (- e)"
  define m where "m = round_half_even (c * 2 ^ j) n"
  have "ratio_exponent (nat c) (nat n) \<le> 0"
    using cn c by (intro ratio_exponent_nonpos) simp
  then have e: "e \<le> - 52" by (simp add: e_def)
  then have ej: "e = - int j" and j52: "52 \<le> j" by (simp_all add: j_def)
  have rr: "round_ratio (nat c) (nat n) = (m, e)"
    using cpos n e by (simp add: round_ratio_def Let_def e_def [symmetric] m_def j_def)
  have m0: "0 \<le> m" unfolding m_def using c n by (intro round_half_even_nonneg) simp_all
  have mle: "m \<le> 2 ^ j" unfolding m_def using n cn
    by (intro round_half_even_le) (simp_all add: mult.commute)
  have "m * 2 ^ nat e < 2 ^ 1024 * 2 ^ nat (- e)"
  proof -
    have "m * 2 ^ nat e = m" using e by simp
    also have "\<dots> \<le> 1 * 2 ^ j" using mle by simp
    also have "\<dots> < 2 ^ 1024 * 2 ^ j" by (intro mult_strict_right_mono) simp_all
    finally show ?thesis by (simp add: j_def)
  qed
  then have res: "int_true_div c n = Inr (Finite m (- int j))"
    using cpos n rr ej by (simp add: int_true_div_def)
  have "\<bar>2 * (m * n - c * 2 ^ j)\<bar> \<le> n"
    unfolding m_def using n by (rule round_half_even_error)
  then have "real_of_int \<bar>2 * (m * n - c * 2 ^ j)\<bar> \<le> real_of_int n"
    by (simp only: of_int_le_iff)
  then have "\<bar>2 * (real_of_int m * real_of_int n - real_of_int c * 2 ^ j)\<bar> \<le> real_of_int n"
    by simp
  then have "\<bar>real_of_int m / 2 ^ j - real_of_int c / real_of_int n\<bar> \<le> 1 / (2 * 2 ^ j)"
    using n by (intro scaled_error) simp_all
  also have "\<dots> \<le> 1 / 2 ^ 53"
  proof -
    have "(2::real) ^ 53 \<le> 2 ^ Suc j" using j52 by (intro power_increasing) simp_all
    then show ?thesis by (simp add: frac_le)
  qed
  finally have acc: "\<bar>real_of_int m / 2 ^ j - real_of_int c / real_of_int n\<bar> \<le> 1 / 2 ^ 53" .
  from res m0 mle acc show ?thesis by blast
qed

lemma float_times_100_unit:
  assumes m0: "0 \<le> m" and mle: "m \<le> 2 ^ j"
  shows "\<exists>m' j'. float_times_100 (Finite m (- int j)) = Finite m' (- int j') \<and> 0 \<le> m'
           \<and> m' \<le> 100 * 2 ^ j'
           \<and> \<bar>real_of_int m' / 2 ^ j' - 100 * (real_of_int m / 2 ^ j)\<bar> \<le> 1 / 2 ^ 47"
proof (cases "m = 0")
  case True
  then have "float_times_100 (Finite m (- int j)) = Finite 0 (- int 0)"
    by (simp add: round_ratio_def)
  with True show ?thesis by (intro exI [of _ 0]) auto
next
  case False
  with m0 have mpos: "0 < m" by simp
  define a where "a = nat (m * 100)"
  define e where "e = max (ratio_exponent a (2 ^ j)) (- 1022) - 52"
  define j' where "j' = nat (- e)"
  define m' where "m' = round_half_even (m * 100 * 2 ^ j') (2 ^ j)"
  have apos: "0 < a" and ia: "int a = m * 100" using mpos by (simp_all add: a_def)
  have "m * 100 \<le> 2 ^ j * 100" using mle by (intro mult_right_mono) simp_all
  also have "\<dots> < 2 ^ j * 2 ^ 7" by (intro mult_strict_left_mono) simp_all
  finally have "int a < 2 ^ 7 * 2 ^ j" using ia by (simp add: mult.commute)
  then have "int a < int (2 ^ 7 * 2 ^ j)" by simp
  then have "a < 2 ^ 7 * 2 ^ j" by (simp only: of_nat_less_iff)
  then have "ratio_exponent a (2 ^ j) < 7" using ratio_exponent_bound [of a 7 j] by simp
  then have e: "e \<le> - 46" by (simp add: e_def)
  then have ej: "e = - int j'" and j46: "46 \<le> j'" by (simp_all add: j'_def)
  have rr: "round_ratio a (2 ^ j) = (m', e)"
    using apos e ia by (simp add: round_ratio_def Let_def e_def [symmetric] m'_def j'_def)
  have m'0: "0 \<le> m'" unfolding m'_def using m0 by (intro round_half_even_nonneg) simp_all
  have m'le: "m' \<le> 100 * 2 ^ j'" unfolding m'_def
  proof (rule round_half_even_le)
    show "(0::int) < 2 ^ j" by simp
    have "m * (100 * 2 ^ j') \<le> 2 ^ j * (100 * 2 ^ j')"
      using mle by (intro mult_right_mono) simp_all
    then show "m * 100 * 2 ^ j' \<le> 100 * 2 ^ j' * 2 ^ j" by (simp add: mult.commute mult.assoc)
  qed
  have "m' * 2 ^ nat e < 2 ^ 1024 * 2 ^ nat (- e)"
  proof -
    have "m' * 2 ^ nat e = m'" using e by simp
    also have "\<dots> \<le> 100 * 2 ^ j'" by (rule m'le)
    also have "\<dots> < 2 ^ 1024 * 2 ^ j'" by (intro mult_strict_right_mono) simp_all
    finally show ?thesis by (simp add: j'_def)
  qed
  moreover have "round_ratio (nat (m * 100)) (2 ^ j) = (m', e)"
    using rr by (simp add: a_def)
  ultimately have res: "float_times_100 (Finite m (- int j)) = Finite m' (- int j')"
    using mpos ej by simp
  have "\<bar>2 * (m' * 2 ^ j - m * 100 * 2 ^ j')\<bar> \<le> 2 ^ j"
    unfolding m'_def by (rule round_half_even_error) simp
  then have "real_of_int \<bar>2 * (m' * 2 ^ j - m * 100 * 2 ^ j')\<bar> \<le> real_of_int (2 ^ j)"
    by (simp only: of_int_le_iff)
  then have "\<bar>2 * (real_of_int m' * 2 ^ j - (real_of_int m * 100) * 2 ^ j')\<bar> \<le> 2 ^ j"
    by simp
  then have "\<bar>real_of_int m' / 2 ^ j' - (real_of_int m * 100) / 2 ^ j\<bar> \<le> 1 / (2 * 2 ^ j')"
    by (intro scaled_error) simp_all
  also have "\<dots> \<le> 1 / 2 ^ 47"
  proof -
    have "(2::real) ^ 47 \<le> 2 ^ Suc j'" using j46 by (intro power_increasing) simp_all
    then show ?thesis by (simp add: frac_le)
  qed
  finally have "\<bar>real_of_int m' / 2 ^ j' - 100 * (real_of_int m / 2 ^ j)\<bar> \<le> 1 / 2 ^ 47"
    by (simp add: mult.commute)
  with res m'0 m'le show ?thesis by blast
qed

lemma progress_in_range:
  assumes c: "0 \<le> c" and cn: "c \<le> n" and n: "0 < n"
  shows "\<exists>q x. int_true_div c n = Inr q \<and> float_value (float_times_100 q) = Some x
           \<and> 0 \<le> x \<and> x \<le> 100
           \<and> \<bar>x - 100 * real_of_int c / real_of_int n\<bar> \<le> 1 / 2 ^ 45"
proof -
  from int_true_div_unit [OF c cn n] obtain m j where
    q: "int_true_div c n = Inr (Finite m (- int j))" and m0: "0 \<le> m" and mle: "m \<le> 2 ^ j"
    and acc1: "\<bar>real_of_int m / 2 ^ j - real_of_int c / real_of_int n\<bar> \<le> 1 / 2 ^ 53"
    by blast
  from float_times_100_unit [OF m0 mle] obtain m' j' where
    f: "float_times_100 (Finite m (- int j)) = Finite m' (- int j')" and m'0: "0 \<le> m'"
    and m'le: "m' \<le> 100 * 2 ^ j'"
    and acc2: "\<bar>real_of_int m' / 2 ^ j' - 100 * (real_of_int m / 2 ^ j)\<bar> \<le> 1 / 2 ^ 47"
    by blast
  define x where "x = real_of_int m' / 2 ^ j'"
  define y where "y = real_of_int m / 2 ^ j"
  define z where "z = real_of_int c / real_of_int n"
  have "float_value (Finite m' (- int j')) = Some x"
    by (simp add: pow2_neg x_def)
  then have v: "float_value (float_times_100 (Finite m (- int j))) = Some x"
    by (simp only: f)
  have x0: "0 \<le> x" using m'0 by (simp add: x_def)
  have "real_of_int m' \<le> real_of_int (100 * 2 ^ j')" using m'le by (simp only: of_int_le_iff)
  then have x100: "x \<le> 100" by (simp add: x_def pos_divide_le_eq)
  have "x - 100 * z = (x - 100 * y) + 100 * (y - z)" by simp
  then have "\<bar>x - 100 * z\<bar> \<le> \<bar>x - 100 * y\<bar> + \<bar>100 * (y - z)\<bar>"
    by (simp only: abs_triangle_ineq)
  also have "\<bar>100 * (y - z)\<bar> = 100 * \<bar>y - z\<bar>" by (simp only: abs_mult abs_numeral)
  also have "\<bar>x - 100 * y\<bar> + 100 * \<bar>y - z\<bar> \<le> 1 / 2 ^ 47 + 100 * (1 / 2 ^ 53)"
    using acc1 acc2 unfolding x_def y_def z_def by (intro add_mono mult_left_mono) simp_all
  also have "\<dots> \<le> 1 / 2 ^ 45" by simp
  finally have "\<bar>x - 100 * real_of_int c / real_of_int n\<bar> \<le> 1 / 2 ^ 45"
    by (simp add: z_def)
  with q v x0 x100 show ?thesis by blast
qed

lemmas float_eval = int_true_div_def round_ratio_def ratio_exponent_def round_half_even_def
  bit_length.simps Let_def pow2_def

section \<open>Orchestrator outcome\<close>

text \<open>
  Claim C1 says the outcome's status is \<open>success\<close> exactly when the sandboxed run
  succeeded. \<open>execute_plan\<close> does not read the run's \<open>success\<close> flag: for the empty plan in
  an environment without file-system faults, a run that exits with code 1 and a run that
  times out both have \<open>success = False\<close>, and both outcomes have status \<open>success\<close>.
\<close>

theorem execute_plan_status_ignores_run_result:
  "success (execute_notebook nonzero_exit 2) = False
   \<and> status (execute_plan (example_env nonzero_exit) ''p1'' [] None) = ''success''
   \<and> success (execute_notebook TimeoutExpired 2) = False
   \<and> status (execute_plan (example_env TimeoutExpired) ''p1'' [] None) = ''success''"
  by (simp add: execute_plan_def example_env_def nonzero_exit_def create_notebook_def
        execute_notebook_def generate_report_def)

section \<open>Background task and tracker\<close>

text \<open>
  Claim C2, as the code has it: the background task returns without raising and leaves the
  tracker exactly as it found it; it sends no status update. What it computes is the
  outcome of \<open>execute_plan\<close>, whose status is always \<open>success\<close> or \<open>failed\<close>.
\<close>

theorem background_task_leaves_tracker_unchanged:
  "execute_plan_background env t execution_id pid steps mods = (t, Inr ())
   \<and> status (execute_plan env pid steps mods) \<in> {''success'', ''failed''}"
  by (simp add: execute_plan_background_def execute_plan_def plan_failed_def Let_def
        split: option.splits sum.splits)

text \<open>
  Against claim C2 as stated: after the background task has run the empty plan from the
  empty tracker, the tracker has no record and no log line for the execution.
\<close>

theorem background_task_no_status_update:
  "executions (fst (execute_plan_background (example_env nonzero_exit) empty_tracker
       ''exec_p1'' ''p1'' [] None)) ''exec_p1'' = None
   \<and> logs (fst (execute_plan_background (example_env nonzero_exit) empty_tracker
       ''exec_p1'' ''p1'' [] None)) ''exec_p1'' = None"
  by (simp add: execute_plan_background_def empty_tracker_def)

section \<open>Empty plan\<close>

text \<open>
  Claim C3 says the empty plan compiles to preamble and closing only and that running the
  Document succeeds. The compilation is as claimed: the four fixed cells, no error. The
  last code cell formats the name \<open>execution_time\<close>, and the only other code cell, the
  imports, does not mention that name: the generated program never binds it.
\<close>

theorem empty_plan_document:
  "create_notebook [] None = Inr [title_cell, imports_cell, summary_header_cell, summary_cell]
   \<and> str_contains ''{execution_time:.2f}'' (cell_text summary_cell)
   \<and> \<not> str_contains ''execution_time'' (cell_text imports_cell)"
  by code_simp

section \<open>Timeout of the sandboxed run\<close>

text \<open>
  Claim C4, as the code has it: on a timeout the runner returns a result whose \<open>success\<close>
  is false and whose outputs are exactly the one entry \<open>error\<close> holding the marker
  \<open>Execution timeout\<close>, with the measured time.
\<close>

theorem timeout_result:
  "success (execute_notebook TimeoutExpired seconds) = False
   \<and> outputs (execute_notebook TimeoutExpired seconds) = [''error'' \<mapsto> PStr ''Execution timeout'']
   \<and> dom (outputs (execute_notebook TimeoutExpired seconds)) = {''error''}
   \<and> execution_time (execute_notebook TimeoutExpired seconds) = seconds"
  by (simp add: execute_notebook_def)

text \<open>
  Against claim C4 as stated: the timeout result has no \<open>stderr\<close> entry and no
  \<open>returncode\<close> entry, so neither a marker in the standard error nor a sentinel exit status.
\<close>

theorem timeout_outputs_lack_stderr_and_returncode:
  "outputs (execute_notebook TimeoutExpired 300) ''stderr'' = None
   \<and> outputs (execute_notebook TimeoutExpired 300) ''returncode'' = None"
  by (simp add: execute_notebook_def)

section \<open>Shape of the compiled Document\<close>

text \<open>
  Claim C5, as the code has it: when the Step Compiler returns a fragment for every step of
  a plan of N steps, compilation without overlay returns a Document of exactly 2N + 4
  blocks: the title and imports blocks, then for each step in order its header block and
  its code block, then the summary header and summary code blocks.
\<close>

theorem plan_compiler_blocks:
  assumes "\<forall>s \<in> set steps. \<exists>c. generate_step_code s = Inr c"
  shows "\<exists>d. create_notebook steps None = Inr d
           \<and> length d = 2 * length steps + 4
           \<and> take 2 d = [title_cell, imports_cell]
           \<and> drop (2 * length steps + 2) d = [summary_header_cell, summary_cell]
           \<and> (\<forall>i < length steps.
                 d ! (2 * i + 2) = Markdown (step_header (steps ! i))
               \<and> (\<exists>c. generate_step_code (steps ! i) = Inr c \<and> d ! (2 * i + 3) = Code c))"
proof -
  from assms have "\<forall>s \<in> set steps. \<exists>s' c. apply_modifications None s = Inr s' \<and> generate_step_code s' = Inr c"
    by (simp add: apply_modifications_None)
  then obtain cells where c: "step_cells None steps = Inr cells"
    using step_cells_total by blast
  let ?d = "[title_cell, imports_cell] @ cells @ [summary_header_cell, summary_cell]"
  have len: "length cells = 2 * length steps" using c by (rule step_cells_length)
  have d: "create_notebook steps None = Inr ?d" using c by (simp add: create_notebook_def)
  have nth: "?d ! (2 * i + 2) = Markdown (step_header (steps ! i))
               \<and> (\<exists>c. generate_step_code (steps ! i) = Inr c \<and> ?d ! (2 * i + 3) = Code c)"
    if i: "i < length steps" for i
  proof -
    from step_cells_nth [OF c i] obtain k where
      "generate_step_code (steps ! i) = Inr k"
      and "cells ! (2 * i) = Markdown (step_header (steps ! i))" and "cells ! (2 * i + 1) = Code k"
      by (auto simp: apply_modifications_None)
    then show ?thesis
      by (simp only: document_nth [OF len i]) simp
  qed
  have "length ?d = 2 * length steps + 4" using len by simp
  moreover have "take 2 ?d = [title_cell, imports_cell]" by simp
  moreover have "drop (2 * length steps + 2) ?d = [summary_header_cell, summary_cell]"
    using len by simp
  ultimately show ?thesis using d nth by blast
qed

theorem plan_compiler_blocks_witness:
  "\<exists>d. create_notebook example_plan None = Inr d \<and> length d = 10
          \<and> d ! 2 = Markdown ''## Step 1: Statistics'' \<and> d ! 9 = summary_cell"
proof -
  have h: "\<forall>s \<in> set example_plan. \<exists>c. generate_step_code s = Inr c"
    by (simp add: example_plan_def stats_step_def report_step_def unknown_step_def
          generate_step_code_def dict_get_def)
  from plan_compiler_blocks [OF h] obtain d where
    d: "create_notebook example_plan None = Inr d" and l: "length d = 2 * length example_plan + 4"
    and dr: "drop (2 * length example_plan + 2) d = [summary_header_cell, summary_cell]"
    and n: "\<forall>i < length example_plan. d ! (2 * i + 2) = Markdown (step_header (example_plan ! i))
               \<and> (\<exists>c. generate_step_code (example_plan ! i) = Inr c \<and> d ! (2 * i + 3) = Code c)"
    by blast
  have l10: "length d = 10" using l by (simp add: example_plan_def)
  have "step_header (stats_step 1 ''x'') = ''## Step 1: Statistics''"
    by (simp add: stats_step_def step_header_def dict_get_def str_int_def
          str_nat.simps digit_char_def)
  with n [rule_format, of 0] have d2: "d ! 2 = Markdown ''## Step 1: Statistics''"
    by (simp add: example_plan_def numeral_2_eq_2)
  from dr have "drop 8 d = [summary_header_cell, summary_cell]" by (simp add: example_plan_def)
  then have "drop 8 d ! 1 = summary_cell" by simp
  then have d9: "d ! 9 = summary_cell" using l10 by simp
  from d l10 d2 d9 show ?thesis by blast
qed

text \<open>
  Against claim C5 as stated: the Document of the empty plan has four blocks, not
  \<open>2 * 0 + 2\<close>.
\<close>

theorem empty_plan_has_four_blocks:
  "create_notebook [] None = Inr [title_cell, imports_cell, summary_header_cell, summary_cell]
   \<and> length [title_cell, imports_cell, summary_header_cell, summary_cell]
       \<noteq> 2 * length ([] :: step_dict list) + 2"
  by (simp add: create_notebook_def)

section \<open>Degradation to the placeholder\<close>

text \<open>
  Claim C6, as the code has it: a step whose action is none of the five recognised strings
  compiles, without an exception, to the placeholder fragment, and the placeholder always
  contains the text of the step's name and of its number. The same placeholder results for
  a \<open>create_plot\<close> step whose plot type is neither \<open>histogram\<close> nor \<open>scatter\<close> and for a
  \<open>compute_correlations\<close> step with no parameters. A \<open>create_plot\<close> or \<open>compute_stats\<close>
  step with no parameters does not degrade: it compiles to its own template with the
  defaults (histogram of the column with the empty name; statistics of all columns).
\<close>

theorem step_compiler_degradation:
  "(dict_get s ''action'' \<notin> recognised_actions \<longrightarrow>
      generate_step_code s = Inr (fallback_template s))
   \<and> str_contains (py_str (dict_get s ''name'')) (fallback_template s)
   \<and> str_contains (py_str (dict_get s ''step_number'')) (fallback_template s)
   \<and> (dict_get s ''action'' = PStr ''create_plot'' \<and> s ''parameters'' = Some (PDict kvs)
        \<and> map_of kvs ''plot_type'' = Some plot_type
        \<and> plot_type \<noteq> PStr ''histogram'' \<and> plot_type \<noteq> PStr ''scatter'' \<longrightarrow>
      generate_step_code s = Inr (fallback_template s))
   \<and> (dict_get s ''action'' = PStr ''compute_correlations'' \<and> s ''parameters'' = None \<longrightarrow>
      generate_step_code s = Inr (fallback_template s))
   \<and> (dict_get s ''action'' = PStr ''create_plot'' \<and> s ''parameters'' = None \<longrightarrow>
      generate_step_code s = Inr (histogram_template ''''))
   \<and> (dict_get s ''action'' = PStr ''compute_stats'' \<and> s ''parameters'' = None \<longrightarrow>
      generate_step_code s = Inr stats_all_template)"
  by (simp add: generate_step_code_def recognised_actions_def Let_def
        fallback_contains_name fallback_contains_number)

theorem step_compiler_degradation_witness:
  "generate_step_code unknown_step = Inr (fallback_template unknown_step)
   \<and> str_contains ''Brew'' (fallback_template unknown_step)
   \<and> str_contains ''3'' (fallback_template unknown_step)
   \<and> generate_step_code plot_step_without_parameters = Inr (histogram_template '''')"
proof -
  have a: "dict_get unknown_step ''action'' \<notin> recognised_actions"
    by (simp add: unknown_step_def dict_get_def recognised_actions_def)
  have n: "py_str (dict_get unknown_step ''name'') = ''Brew''"
    by (simp add: unknown_step_def dict_get_def)
  have k: "py_str (dict_get unknown_step ''step_number'') = ''3''"
    by (simp add: unknown_step_def dict_get_def str_int_def str_nat.simps digit_char_def)
  have p: "dict_get plot_step_without_parameters ''action'' = PStr ''create_plot''
      \<and> plot_step_without_parameters ''parameters'' = None"
    by (simp add: plot_step_without_parameters_def dict_get_def)
  from step_compiler_degradation [of unknown_step] a n k
    step_compiler_degradation [of plot_step_without_parameters] p
  show ?thesis by simp
qed

text \<open>
  Against claim C6 as stated: a \<open>create_plot\<close> step named \<open>Visualise\<close>, numbered 7, with
  no parameters compiles to the histogram template for the empty column name, which is not
  the placeholder and contains neither the name nor the number.
\<close>

theorem missing_parameters_use_defaults:
  "generate_step_code plot_step_without_parameters = Inr (histogram_template '''')
   \<and> histogram_template '''' \<noteq> fallback_template plot_step_without_parameters
   \<and> \<not> str_contains ''Visualise'' (histogram_template '''')
   \<and> \<not> str_contains ''7'' (histogram_template '''')"
  by code_simp

section \<open>Overlay\<close>

text \<open>
  When a plan compiles to a Document both without and with an overlay, the two Documents
  have the same length, the same preamble and closing blocks, and identical header and
  code blocks, at the same positions, for every step whose number has no entry in the
  overlay; for a step whose number \<open>k\<close> has an entry, the two blocks are those of the step
  merged with the entry, the entry's fields winning.
\<close>

lemma overlay_frame:
  assumes d: "create_notebook steps None = Inr d"
    and d': "create_notebook steps (Some m) = Inr d'"
  shows "length d' = length d
       \<and> take 2 d' = take 2 d
       \<and> drop (2 * length steps + 2) d' = drop (2 * length steps + 2) d
       \<and> (\<forall>i < length steps.
             overlay_of m (norm_key (dict_get (steps ! i) ''step_number'')) = None \<longrightarrow>
             d' ! (2 * i + 2) = d ! (2 * i + 2) \<and> d' ! (2 * i + 3) = d ! (2 * i + 3))
       \<and> (\<forall>i < length steps. \<forall>k entry.
             m \<noteq> [] \<and> (steps ! i) ''step_number'' = Some k \<and> overlay_of m (norm_key k) = Some entry \<longrightarrow>
             d' ! (2 * i + 2) = Markdown (step_header (steps ! i ++ entry))
           \<and> (\<exists>c. generate_step_code (steps ! i ++ entry) = Inr c \<and> d' ! (2 * i + 3) = Code c))"
proof -
  from d obtain cells where c: "step_cells None steps = Inr cells"
    and dd: "d = [title_cell, imports_cell] @ cells @ [summary_header_cell, summary_cell]"
    by (auto simp: create_notebook_Inr)
  from d' obtain cells' where c': "step_cells (Some m) steps = Inr cells'"
    and dd': "d' = [title_cell, imports_cell] @ cells' @ [summary_header_cell, summary_cell]"
    by (auto simp: create_notebook_Inr)
  have len: "length cells = 2 * length steps" using c by (rule step_cells_length)
  have len': "length cells' = 2 * length steps" using c' by (rule step_cells_length)
  have L: "length d' = length d" by (simp add: dd dd' len len')
  have T: "take 2 d' = take 2 d" by (simp add: dd dd')
  have D: "drop (2 * length steps + 2) d' = drop (2 * length steps + 2) d"
    by (simp add: dd dd' len len')
  have same: "d' ! (2 * i + 2) = d ! (2 * i + 2) \<and> d' ! (2 * i + 3) = d ! (2 * i + 3)"
    if i: "i < length steps"
      and no: "overlay_of m (norm_key (dict_get (steps ! i) ''step_number'')) = None" for i
  proof -
    from step_cells_nth [OF c i] obtain k where
      g: "generate_step_code (steps ! i) = Inr k"
      and h: "cells ! (2 * i) = Markdown (step_header (steps ! i))"
      and kk: "cells ! (2 * i + 1) = Code k"
      by (auto simp: apply_modifications_None)
    from step_cells_nth [OF c' i] obtain s' k' where
      a': "apply_modifications (Some m) (steps ! i) = Inr s'"
      and g': "generate_step_code s' = Inr k'"
      and h': "cells' ! (2 * i) = Markdown (step_header s')"
      and kk': "cells' ! (2 * i + 1) = Code k'"
      by blast
    have "s' = steps ! i" using a' no by (rule apply_modifications_no_entry)
    with g g' h h' kk kk' have "cells' ! (2 * i) = cells ! (2 * i)"
      and "cells' ! (2 * i + 1) = cells ! (2 * i + 1)" by simp_all
    then show ?thesis
      by (simp only: dd dd' document_nth [OF len i] document_nth [OF len' i])
  qed
  have changed: "d' ! (2 * i + 2) = Markdown (step_header (steps ! i ++ entry))
           \<and> (\<exists>c. generate_step_code (steps ! i ++ entry) = Inr c \<and> d' ! (2 * i + 3) = Code c)"
    if i: "i < length steps" and ne: "m \<noteq> []" and k: "(steps ! i) ''step_number'' = Some k"
      and e: "overlay_of m (norm_key k) = Some entry" for i k entry
  proof -
    from step_cells_nth [OF c' i] obtain s' k' where
      a': "apply_modifications (Some m) (steps ! i) = Inr s'"
      and g': "generate_step_code s' = Inr k'"
      and h': "cells' ! (2 * i) = Markdown (step_header s')"
      and kk': "cells' ! (2 * i + 1) = Code k'"
      by blast
    have "s' = steps ! i ++ entry" using a' ne k e by (rule apply_modifications_entry)
    with g' h' kk' show ?thesis
      by (simp only: dd' document_nth [OF len' i]) simp
  qed
  from L T D same changed show ?thesis by blast
qed

lemma overlay_frame_example:
  "\<exists>d d'. create_notebook example_plan None = Inr d
      \<and> create_notebook example_plan (Some example_modifications) = Inr d'
      \<and> length d' = length d
      \<and> d' ! 2 = d ! 2 \<and> d' ! 3 = d ! 3
      \<and> d' ! 4 = Markdown ''## Step 2: Final report''
      \<and> d' ! 6 = d ! 6 \<and> d' ! 7 = d ! 7"
proof -
  have "\<exists>d. create_notebook example_plan None = Inr d"
    by (simp add: create_notebook_def example_plan_def stats_step_def report_step_def
          unknown_step_def generate_step_code_def apply_modifications_def dict_get_def)
  then obtain d where d: "create_notebook example_plan None = Inr d" ..
  have "\<exists>d'. create_notebook example_plan (Some example_modifications) = Inr d'"
    by (simp add: create_notebook_def example_plan_def stats_step_def report_step_def
          unknown_step_def generate_step_code_def apply_modifications_def dict_get_def
          example_modifications_def overlay_of_def map_add_def)
  then obtain d' where d': "create_notebook example_plan (Some example_modifications) = Inr d'" ..
  note fr = overlay_frame [OF d d']
  from fr have L: "length d' = length d" by blast
  from fr have same: "\<And>i. i < length example_plan \<Longrightarrow>
      overlay_of example_modifications (norm_key (dict_get (example_plan ! i) ''step_number'')) = None \<Longrightarrow>
      d' ! (2 * i + 2) = d ! (2 * i + 2) \<and> d' ! (2 * i + 3) = d ! (2 * i + 3)"
    by blast
  from fr have changed: "\<And>i k entry. i < length example_plan \<Longrightarrow>
      example_modifications \<noteq> [] \<and> (example_plan ! i) ''step_number'' = Some k
        \<and> overlay_of example_modifications (norm_key k) = Some entry \<Longrightarrow>
      d' ! (2 * i + 2) = Markdown (step_header (example_plan ! i ++ entry))"
    by blast
  have s0: "d' ! 2 = d ! 2 \<and> d' ! 3 = d ! 3"
    using same [of 0]
    by (simp add: example_plan_def example_modifications_def overlay_of_def stats_step_def
          dict_get_def numeral_2_eq_2)
  have s2: "d' ! 6 = d ! 6 \<and> d' ! 7 = d ! 7"
    using same [of 2]
    by (simp add: example_plan_def example_modifications_def overlay_of_def unknown_step_def dict_get_def)
  have "step_header (report_step 2 ++ [''name'' \<mapsto> PStr ''Final report'']) = ''## Step 2: Final report''"
    by (simp add: report_step_def step_header_def dict_get_def map_add_def str_int_def
          str_nat.simps digit_char_def)
  with changed [of 1 "PInt 2" "[''name'' \<mapsto> PStr ''Final report'']"]
  have s1: "d' ! 4 = Markdown ''## Step 2: Final report''"
    by (simp add: example_plan_def example_modifications_def overlay_of_def report_step_def)
  from d d' L s0 s1 s2 show ?thesis by blast
qed

text \<open>
  Claim C7 says that compiling with an overlay produces a Document in which only the
  blocks of the overlaid step differ. No Document is produced when a \<open>load_data\<close> step is
  involved: the plan the planner emits begins with one and compiles to \<open>NameError\<close> with
  or without an overlay, and a plan that compiles to ten blocks without overlay compiles
  to \<open>NameError\<close> with an overlay whose entry turns step 2 into a \<open>load_data\<close> step.
\<close>

theorem overlay_compilation_stops_at_load_data:
  "create_notebook planner_plan None = Inl (NameError ''df'')
   \<and> create_notebook planner_plan (Some example_modifications) = Inl (NameError ''df'')
   \<and> map_sum id length (create_notebook example_plan None) = Inr 10
   \<and> create_notebook example_plan (Some load_data_modifications) = Inl (NameError ''df'')"
  by (simp add: create_notebook_def planner_plan_def example_plan_def load_data_step_def
        stats_step_def report_step_def unknown_step_def generate_step_code_def
        apply_modifications_def dict_get_def example_modifications_def
        load_data_modifications_def overlay_of_def map_add_def)

section \<open>Progress of a tracked execution\<close>

text \<open>
  Claim C8, as the code has it: for an unknown execution, and for a record whose
  \<open>total_steps\<close> is an integer not above zero, the status query answers with the integer
  progress 0. For a record with integer \<open>current_step\<close> \<open>c\<close> and \<open>total_steps\<close> \<open>n\<close>, where
  \<open>0 \<le> c \<le> n\<close> and \<open>0 < n\<close>, it answers with the float \<open>c / n * 100\<close>, quotient and
  product each rounded to binary64; that float lies between 0 and 100 and is within
  \<open>2 ^ (- 45)\<close> of \<open>100 * c / n\<close>.
\<close>

theorem progress_percent_float:
  "(executions t i = None \<longrightarrow>
      (\<exists>v. get_execution_status t i = Status v \<and> progress_percent v = PyInt 0))
   \<and> (executions t i = Some r \<and> total_steps r = Some n \<and> n \<le> 0 \<longrightarrow>
      (\<exists>v. get_execution_status t i = Status v \<and> progress_percent v = PyInt 0))
   \<and> (executions t i = Some r \<and> total_steps r = Some n \<and> current_step r = Some c
        \<and> 0 \<le> c \<and> c \<le> n \<and> 0 < n \<longrightarrow>
      (\<exists>v q x. get_execution_status t i = Status v \<and> int_true_div c n = Inr q
          \<and> progress_percent v = PyFloat (float_times_100 q)
          \<and> num_value (progress_percent v) = Some x \<and> 0 \<le> x \<and> x \<le> 100
          \<and> \<bar>x - 100 * real_of_int c / real_of_int n\<bar> \<le> 1 / 2 ^ 45))"
proof (intro conjI impI)
  assume "executions t i = None"
  then show "\<exists>v. get_execution_status t i = Status v \<and> progress_percent v = PyInt 0"
    by (simp add: get_execution_status_def)
next
  assume "executions t i = Some r \<and> total_steps r = Some n \<and> n \<le> 0"
  then show "\<exists>v. get_execution_status t i = Status v \<and> progress_percent v = PyInt 0"
    by (simp add: get_execution_status_def)
next
  assume a: "executions t i = Some r \<and> total_steps r = Some n \<and> current_step r = Some c
        \<and> 0 \<le> c \<and> c \<le> n \<and> 0 < n"
  then obtain q x where q: "int_true_div c n = Inr q"
    and x: "float_value (float_times_100 q) = Some x" "0 \<le> x" "x \<le> 100"
      "\<bar>x - 100 * real_of_int c / real_of_int n\<bar> \<le> 1 / 2 ^ 45"
    using progress_in_range [of c n] by blast
  from a q obtain v where v: "get_execution_status t i = Status v"
    and p: "progress_percent v = PyFloat (float_times_100 q)"
    by (simp add: get_execution_status_def)
  from p x have "num_value (progress_percent v) = Some x" by simp
  with v q p x show "\<exists>v q x. get_execution_status t i = Status v \<and> int_true_div c n = Inr q
          \<and> progress_percent v = PyFloat (float_times_100 q)
          \<and> num_value (progress_percent v) = Some x \<and> 0 \<le> x \<and> x \<le> 100
          \<and> \<bar>x - 100 * real_of_int c / real_of_int n\<bar> \<le> 1 / 2 ^ 45"
    by blast
qed

theorem progress_percent_float_witness:
  "\<exists>v x. get_execution_status
          (update_execution_status 0 empty_tracker ''e1'' ''running'' (Some 1) (Some 4) None) ''e1''
        = Status v
      \<and> num_value (progress_percent v) = Some x \<and> 0 \<le> x \<and> x \<le> 100
      \<and> \<bar>x - 25\<bar> \<le> 1 / 2 ^ 45"
proof -
  let ?t = "update_execution_status 0 empty_tracker ''e1'' ''running'' (Some 1) (Some 4) None"
  let ?r = "\<lparr>exec_status = ''running'', current_step = Some 1, total_steps = Some 4,
             estimated_remaining = None, last_updated = 0\<rparr>"
  have r: "executions ?t ''e1'' = Some ?r"
    by (simp add: update_execution_status_def add_log_def empty_tracker_def py_or_def)
  from progress_percent_float [of ?t "''e1''" ?r 4 1] r
  obtain v x where "get_execution_status ?t ''e1'' = Status v"
    and "num_value (progress_percent v) = Some x" and "0 \<le> x" and "x \<le> 100"
    and "\<bar>x - 100 * real_of_int 1 / real_of_int 4\<bar> \<le> 1 / 2 ^ 45"
    by auto
  then show ?thesis by (intro exI [of _ v] exI [of _ x]) simp
qed

text \<open>
  Against claim C8 as stated: one status update with current step 5 and 2 total steps, on
  a new execution, gives a record whose reported progress is the float 250; and with
  current step 7 and 100 total steps the reported progress is the float
  \<open>(7 * 2 ^ 50 + 1) / 2 ^ 50\<close>, printed \<open>7.000000000000001\<close>, not 7.
\<close>

theorem progress_percent_above_hundred_and_inexact:
  "get_execution_status
     (update_execution_status 0 empty_tracker ''e1'' ''running'' (Some 5) (Some 2) None) ''e1''
   = Status \<lparr>view_status = ''running'', view_current_step = Some 5, view_total_steps = Some 2,
       view_logs = [''Status updated: running''], view_estimated_remaining = None,
       progress_percent = PyFloat (Finite (125 * 2 ^ 46) (- 45))\<rparr>
   \<and> num_value (PyFloat (Finite (125 * 2 ^ 46) (- 45))) = Some 250
   \<and> get_execution_status
     (update_execution_status 0 empty_tracker ''e1'' ''running'' (Some 7) (Some 100) None) ''e1''
   = Status \<lparr>view_status = ''running'', view_current_step = Some 7, view_total_steps = Some 100,
       view_logs = [''Status updated: running''], view_estimated_remaining = None,
       progress_percent = PyFloat (Finite (7 * 2 ^ 50 + 1) (- 50))\<rparr>
   \<and> num_value (PyFloat (Finite (7 * 2 ^ 50 + 1) (- 50))) \<noteq> Some 7"
  by (simp add: get_execution_status_def update_execution_status_def add_log_def empty_tracker_def
       py_or_def last_messages_def float_eval)

section \<open>Status updates\<close>

text \<open>
  Claim C9, as the code has it: a status update always stores the new status, the given
  estimate (\<open>None\<close> when none is given) and the time; it stores a given nonzero current step
  or total, and keeps the prior value of each of the two when the call gives none; it
  leaves the records and logs of other executions alone; and it appends exactly one log
  entry of level \<open>INFO\<close> with the message \<open>Status updated: \<close> followed by the status.
\<close>

theorem update_execution_status_effect:
  "\<exists>r'. executions (update_execution_status now t i st cur tot eta) i = Some r'
      \<and> exec_status r' = st
      \<and> estimated_remaining r' = eta
      \<and> last_updated r' = now
      \<and> (cur = None \<longrightarrow>
            current_step r' = (case executions t i of None \<Rightarrow> None | Some r \<Rightarrow> current_step r))
      \<and> (\<forall>c. cur = Some c \<and> c \<noteq> 0 \<longrightarrow> current_step r' = Some c)
      \<and> (tot = None \<longrightarrow>
            total_steps r' = (case executions t i of None \<Rightarrow> None | Some r \<Rightarrow> total_steps r))
      \<and> (\<forall>n. tot = Some n \<and> n \<noteq> 0 \<longrightarrow> total_steps r' = Some n)
      \<and> (\<forall>j. j \<noteq> i \<longrightarrow>
            executions (update_execution_status now t i st cur tot eta) j = executions t j
          \<and> logs (update_execution_status now t i st cur tot eta) j = logs t j)
      \<and> logs (update_execution_status now t i st cur tot eta) i
          = Some ((case logs t i of None \<Rightarrow> [] | Some entries \<Rightarrow> entries)
                  @ [\<lparr>timestamp = now, level = ''INFO'', message = ''Status updated: '' @ st,
                      log_step = None\<rparr>])"
  by (simp add: update_execution_status_def add_log_def py_or_def Let_def)

theorem update_execution_status_effect_witness:
  "\<exists>r'. executions
          (update_execution_status 1
             (update_execution_status 0 empty_tracker ''e1'' ''running'' (Some 1) (Some 4) (Some ''6 minutes''))
             ''e1'' ''running'' (Some 2) None None) ''e1'' = Some r'
      \<and> current_step r' = Some 2 \<and> total_steps r' = Some 4 \<and> estimated_remaining r' = None"
proof -
  let ?t0 = "update_execution_status 0 empty_tracker ''e1'' ''running'' (Some 1) (Some 4) (Some ''6 minutes'')"
  have t0: "executions ?t0 ''e1'' = Some \<lparr>exec_status = ''running'', current_step = Some 1,
      total_steps = Some 4, estimated_remaining = Some ''6 minutes'', last_updated = 0\<rparr>"
    by (simp add: update_execution_status_def add_log_def empty_tracker_def py_or_def)
  from update_execution_status_effect [of 1 ?t0 "''e1''" "''running''" "Some 2" None None]
  obtain r' where
    "executions (update_execution_status 1 ?t0 ''e1'' ''running'' (Some 2) None None) ''e1'' = Some r'"
    and "estimated_remaining r' = None"
    and "\<forall>c. Some 2 = Some c \<and> c \<noteq> 0 \<longrightarrow> current_step r' = Some c"
    and "total_steps r' = (case executions ?t0 ''e1'' of None \<Rightarrow> None | Some r \<Rightarrow> total_steps r)"
    by auto
  then show ?thesis using t0 by auto
qed

text \<open>
  Against claim C9 as stated: an update that gives no estimate does not keep the prior
  estimate; the stored estimate becomes \<open>None\<close>.
\<close>

theorem update_drops_prior_estimate:
  "map_option estimated_remaining
     (executions
        (update_execution_status 1
           (update_execution_status 0 empty_tracker ''e1'' ''running'' (Some 1) (Some 4) (Some ''6 minutes''))
           ''e1'' ''running'' (Some 2) None None) ''e1'') = Some None
   \<and> map_option estimated_remaining
     (executions
        (update_execution_status 0 empty_tracker ''e1'' ''running'' (Some 1) (Some 4) (Some ''6 minutes''))
        ''e1'') = Some (Some ''6 minutes'')"
  by (simp add: update_execution_status_def add_log_def empty_tracker_def py_or_def)

section \<open>Interpolation of parameter values\<close>




end
